theory Spec2Isabelle
  imports Complex_Main
begin

section \<open>Rows, errors and the value coercion helpers\<close>

text \<open>
  The decoders of \<^verbatim>\<open>moneywiz_api/model\<close> read one database row and build one
  validated object. A row maps a column name to the stored value, which is SQL NULL
  (Python \<^verbatim>\<open>None\<close>), a number or a text. Numbers and \<^verbatim>\<open>Decimal\<close> values are
  modelled as exact rationals: the rounding of Python's decimal context (28 significant
  digits) and of binary floats is outside the model, and the tolerances
  \<^verbatim>\<open>ABS_TOLERANCE = 0.001\<close> and \<^verbatim>\<open>ABS_TOLERANCE2 = 0.01\<close> are read as the decimal
  fractions the source writes. A column that the row does not have reads as NULL.
\<close>

datatype raw = RNull | RNum rat | RStr string

type_synonym row = "string \<Rightarrow> raw"

text \<open>
  Every exception of the source is a value. An \<^verbatim>\<open>assert\<close> that fails carries the
  line of the assertion in its source file, so that a theorem can say which check
  rejected a row.
\<close>

datatype error =
    MissingField string
  | AssertionError nat
  | RuntimeError
  | TypeError
  | DivisionByZero

definition and_then :: "error + 'a \<Rightarrow> ('a \<Rightarrow> error + 'b) \<Rightarrow> error + 'b" where
  "and_then m f = (case m of Inl e \<Rightarrow> Inl e | Inr x \<Rightarrow> f x)"

text \<open>A run of \<^verbatim>\<open>assert\<close> statements: the first one that is false raises.\<close>

fun run_asserts :: "(nat \<times> bool) list \<Rightarrow> error + unit" where
  "run_asserts [] = Inr ()"
| "run_asserts ((l, b) # cs) = (if b then run_asserts cs else Inl (AssertionError l))"

text \<open>
  Modelled from the spec: \<^verbatim>\<open>RawDataHandler.get_decimal\<close> (raw_data_handler.py is not
  among the sources). It yields the exact decimal of a stored number and fails with
  \<^verbatim>\<open>MissingField\<close> when the column is absent or does not hold a number.
\<close>

definition get_decimal :: "row \<Rightarrow> string \<Rightarrow> error + rat" where
  "get_decimal row c =
     (case row c of RNum x \<Rightarrow> Inr x | RNull \<Rightarrow> Inl (MissingField c) | RStr _ \<Rightarrow> Inl (MissingField c))"

text \<open>
  Modelled from the spec: \<^verbatim>\<open>RawDataHandler.get_nullable_decimal\<close> (raw_data_handler.py
  is not among the sources). It yields null for a stored "no value", which is distinct
  from zero, and the exact decimal of a stored number.
\<close>

definition get_nullable_decimal :: "row \<Rightarrow> string \<Rightarrow> error + rat option" where
  "get_nullable_decimal row c =
     (case row c of RNull \<Rightarrow> Inr None | RNum x \<Rightarrow> Inr (Some x) | RStr _ \<Rightarrow> Inl (MissingField c))"

text \<open>
  Modelled from the spec: \<^verbatim>\<open>RawDataHandler.get_datetime\<close> (raw_data_handler.py is not
  among the sources). It converts a stored epoch-like number into a timestamp, kept here
  as the number itself, and fails with \<^verbatim>\<open>MissingField\<close> on absence.
\<close>

definition get_datetime :: "row \<Rightarrow> string \<Rightarrow> error + rat" where
  "get_datetime row c =
     (case row c of RNum x \<Rightarrow> Inr x | RNull \<Rightarrow> Inl (MissingField c) | RStr _ \<Rightarrow> Inl (MissingField c))"

text \<open>
  Modelled from the spec: the column that holds the identifier of a record (record.py is
  not among the sources, and the spec does not name the column). The primary key column
  of the store is taken for it; no theorem below depends on the name.
\<close>

definition ID_COLUMN :: string where
  "ID_COLUMN = ''Z_PK''"

text \<open>
  Modelled from the spec: \<^verbatim>\<open>Record.__init__\<close> (record.py is not among the sources).
  The identifier of a record is always present after construction, and a row without it
  is a fatal decode error.
\<close>

definition Record_init :: "row \<Rightarrow> error + raw" where
  "Record_init row =
     (case row ID_COLUMN of RNull \<Rightarrow> Inl (MissingField ID_COLUMN) | v \<Rightarrow> Inr v)"

text \<open>
  The comparison \<^verbatim>\<open>actual == pytest.approx(expected, abs=tol)\<close> on scalars: equal
  values compare equal at once, otherwise the distance is compared with the absolute
  tolerance.
\<close>

definition ABS_TOLERANCE :: rat where
  "ABS_TOLERANCE = 1 / 1000"

definition ABS_TOLERANCE2 :: rat where
  "ABS_TOLERANCE2 = 1 / 100"

definition approx :: "rat \<Rightarrow> rat \<Rightarrow> rat \<Rightarrow> bool" where
  "approx actual expected tol = (actual = expected \<or> \<bar>expected - actual\<bar> \<le> tol)"

text \<open>A concrete row from the list of its columns.\<close>

definition row_of :: "(string \<times> raw) list \<Rightarrow> row" where
  "row_of kvs c = (case map_of kvs c of None \<Rightarrow> RNull | Some v \<Rightarrow> v)"

section \<open>InvestmentHolding\<close>

record holding =
  ident :: raw
  account :: raw
  opening_number_of_shares :: "rat option"
  number_of_shares :: rat
  symbol :: raw
  holding_type :: raw
  description :: raw
  price_per_share_available_online :: bool
  investment_object_type :: string
  cost_basis_of_missing_ob_shares :: rat

text \<open>
  \<^verbatim>\<open>InvestmentHolding._convert_investment_object_type\<close>, investment_holding.py lines
  81 to 85.
\<close>

definition convert_investment_object_type :: "raw \<Rightarrow> error + string" where
  "convert_investment_object_type ty =
     (if ty \<in> set [RNum 0, RNum 1]
      then Inr (if ty = RNum 1 then ''Forex/Crypto'' else ''Investment'')
      else Inl RuntimeError)"

definition InvestmentHolding_validate :: "holding \<Rightarrow> error + unit" where
  "InvestmentHolding_validate t = run_asserts
     [(67, holding.account t \<noteq> RNull),
      (68, True),
      (70, holding.symbol t \<noteq> RNull),
      (71, holding.description t \<noteq> RNull),
      (73, True),
      (74, True)]"

definition InvestmentHolding_init :: "row \<Rightarrow> error + holding" where
  "InvestmentHolding_init row =
     and_then (Record_init row) (\<lambda>i.
     and_then (get_nullable_decimal row ''ZOPENNINGNUMBEROFSHARES'') (\<lambda>ons.
     and_then (get_decimal row ''ZNUMBEROFSHARES'') (\<lambda>n.
     and_then (convert_investment_object_type (row ''ZINVESTMENTOBJECTTYPE'')) (\<lambda>iot.
     and_then (get_decimal row ''ZCOSTBASISOFMISSINGOBSHARES'') (\<lambda>cb.
       let t = \<lparr>holding.ident = i,
                holding.account = row ''ZINVESTMENTACCOUNT'',
                holding.opening_number_of_shares = ons,
                holding.number_of_shares = n,
                holding.symbol = row ''ZSYMBOL'',
                holding.holding_type = row ''ZHOLDINGTYPE'',
                holding.description = row ''ZDESC'',
                holding.price_per_share_available_online =
                  (row ''ZISPRICEPERSHAREAVAILABLEONLINE'' = RNum 1),
                holding.investment_object_type = iot,
                holding.cost_basis_of_missing_ob_shares = cb\<rparr>
       in and_then (InvestmentHolding_validate t) (\<lambda>_. Inr t))))))"

text \<open>
  A holding row with the stored investment object type left open. The account, the
  symbol and the description are absent when \<open>full\<close> is false, so that the
  assertions of \<^verbatim>\<open>validate\<close> would fail.
\<close>

definition example_holding_row :: "raw \<Rightarrow> bool \<Rightarrow> row" where
  "example_holding_row ty full = row_of
     ([(''Z_PK'', RNum 5), (''ZNUMBEROFSHARES'', RNum 12),
       (''ZINVESTMENTOBJECTTYPE'', ty), (''ZCOSTBASISOFMISSINGOBSHARES'', RNum 0)]
      @ (if full
         then [(''ZINVESTMENTACCOUNT'', RNum 2), (''ZSYMBOL'', RStr ''ACME''),
               (''ZDESC'', RStr ''Acme Corp'')]
         else []))"

section \<open>Transaction\<close>

record transaction =
  ident :: raw
  reconciled :: bool
  amount :: rat
  description :: raw
  datetime :: rat
  notes1 :: raw

text \<open>
  \<^verbatim>\<open>Transaction.__init__\<close>, transaction.py lines 30 to 45. The assertions on
  \<^verbatim>\<open>reconciled\<close>, \<^verbatim>\<open>amount\<close> and \<^verbatim>\<open>datetime\<close> cannot fail once the values
  were extracted.
\<close>

definition Transaction_init :: "row \<Rightarrow> error + transaction" where
  "Transaction_init row =
     and_then (Record_init row) (\<lambda>i.
     and_then (get_decimal row ''ZAMOUNT1'') (\<lambda>a.
     and_then (get_datetime row ''ZDATE1'') (\<lambda>d.
       let t = \<lparr>ident = i, reconciled = (row ''ZRECONCILED'' = RNum 1), amount = a,
                description = row ''ZDESC2'', datetime = d, notes1 = row ''ZNOTES1''\<rparr>
       in and_then (run_asserts [(41, True), (42, True), (43, description t \<noteq> RNull), (44, True)])
            (\<lambda>_. Inr t))))"

section \<open>InvestmentBuyTransaction and InvestmentSellTransaction\<close>

record investment_buy = transaction +
  account :: raw
  fee :: rat
  investment_holding :: raw
  number_of_shares :: rat
  price_per_share :: rat
  symbol :: raw

text \<open>The check of lines 203 to 206 (and 259 to 262): the fee is tiny or positive.\<close>

definition fee_tiny_or_positive :: "rat \<Rightarrow> bool" where
  "fee_tiny_or_positive f = (approx \<bar>f\<bar> 0 ABS_TOLERANCE \<or> f > ABS_TOLERANCE)"

text \<open>The fix-up of lines 191 and 247: \<^verbatim>\<open>self.fee = max(self.fee, 0)\<close>.\<close>

definition fix_fee :: "rat \<Rightarrow> rat" where
  "fix_fee f = max f 0"

definition InvestmentBuyTransaction_validate :: "investment_buy \<Rightarrow> error + unit" where
  "InvestmentBuyTransaction_validate t = run_asserts
     [(197, investment_buy.account t \<noteq> RNull),
      (198, True),
      (199, amount t \<le> 0),
      (200, True),
      (201, investment_buy.fee t \<ge> 0),
      (203, fee_tiny_or_positive (investment_buy.fee t)),
      (207, investment_buy.investment_holding t \<noteq> RNull),
      (208, True),
      (209, investment_buy.number_of_shares t > 0),
      (210, True),
      (211, investment_buy.price_per_share t \<ge> 0),
      (212, approx (- (investment_buy.number_of_shares t * investment_buy.price_per_share t
                        + investment_buy.fee t)) (amount t) ABS_TOLERANCE),
      (215, investment_buy.symbol t \<noteq> RNull)]"

definition InvestmentBuyTransaction_init :: "row \<Rightarrow> error + investment_buy" where
  "InvestmentBuyTransaction_init row =
     and_then (Transaction_init row) (\<lambda>b.
     and_then (get_decimal row ''ZAMOUNT1'') (\<lambda>a.
     and_then (get_decimal row ''ZFEE2'') (\<lambda>f.
     and_then (get_decimal row ''ZNUMBEROFSHARES1'') (\<lambda>n.
     and_then (get_decimal row ''ZPRICEPERSHARE1'') (\<lambda>p.
       let t = \<lparr>ident = ident b, reconciled = reconciled b, amount = a,
                description = description b, datetime = datetime b, notes1 = notes1 b,
                investment_buy.account = row ''ZACCOUNT2'',
                investment_buy.fee = fix_fee f,
                investment_buy.investment_holding = row ''ZINVESTMENTHOLDING'',
                investment_buy.number_of_shares = n,
                investment_buy.price_per_share = p,
                investment_buy.symbol = row ''ZSYMBOL1''\<rparr>
       in and_then (InvestmentBuyTransaction_validate t) (\<lambda>_. Inr t))))))"

record investment_sell = transaction +
  account :: raw
  fee :: rat
  investment_holding :: raw
  number_of_shares :: rat
  price_per_share :: rat
  symbol :: raw

definition InvestmentSellTransaction_validate :: "investment_sell \<Rightarrow> error + unit" where
  "InvestmentSellTransaction_validate t = run_asserts
     [(253, investment_sell.account t \<noteq> RNull),
      (254, True),
      (256, True),
      (257, investment_sell.fee t \<ge> 0),
      (259, fee_tiny_or_positive (investment_sell.fee t)),
      (264, investment_sell.investment_holding t \<noteq> RNull),
      (265, True),
      (266, investment_sell.number_of_shares t > 0),
      (267, True),
      (268, investment_sell.price_per_share t \<ge> 0),
      (269, approx (investment_sell.number_of_shares t * investment_sell.price_per_share t
                     - investment_sell.fee t) (amount t) ABS_TOLERANCE),
      (272, investment_sell.symbol t \<noteq> RNull)]"

definition InvestmentSellTransaction_init :: "row \<Rightarrow> error + investment_sell" where
  "InvestmentSellTransaction_init row =
     and_then (Transaction_init row) (\<lambda>b.
     and_then (get_decimal row ''ZAMOUNT1'') (\<lambda>a.
     and_then (get_decimal row ''ZFEE2'') (\<lambda>f.
     and_then (get_decimal row ''ZNUMBEROFSHARES1'') (\<lambda>n.
     and_then (get_decimal row ''ZPRICEPERSHARE1'') (\<lambda>p.
       let t = \<lparr>ident = ident b, reconciled = reconciled b, amount = a,
                description = description b, datetime = datetime b, notes1 = notes1 b,
                investment_sell.account = row ''ZACCOUNT2'',
                investment_sell.fee = fix_fee f,
                investment_sell.investment_holding = row ''ZINVESTMENTHOLDING'',
                investment_sell.number_of_shares = n,
                investment_sell.price_per_share = p,
                investment_sell.symbol = row ''ZSYMBOL1''\<rparr>
       in and_then (InvestmentSellTransaction_validate t) (\<lambda>_. Inr t))))))"



section \<open>DepositTransaction and WithdrawTransaction\<close>

text \<open>
  The fix-up of lines 75, 333 and 572: an exchange rate of zero means that the rate is
  unknown (\<^verbatim>\<open>if self.original_exchange_rate == Decimal(0): ... = None\<close>).
\<close>

definition fix_zero_rate :: "rat option \<Rightarrow> rat option" where
  "fix_zero_rate r = (if r = Some 0 then None else r)"

text \<open>The fix-up of lines 419 and 507: \<^verbatim>\<open>abs(...)\<close> of the stored amount.\<close>

definition fix_abs :: "rat \<Rightarrow> rat" where
  "fix_abs v = \<bar>v\<bar>"

record deposit = transaction +
  account :: raw
  payee :: raw
  original_currency :: raw
  original_amount :: rat
  original_exchange_rate :: "rat option"

definition DepositTransaction_validate :: "deposit \<Rightarrow> error + unit" where
  "DepositTransaction_validate t = run_asserts
     [(82, deposit.account t \<noteq> RNull),
      (83, True),
      (85, deposit.original_currency t \<noteq> RNull),
      (86, True),
      (88, amount t * deposit.original_amount t > 0),
      (90, case deposit.original_exchange_rate t of
             None \<Rightarrow> True
           | Some r \<Rightarrow> approx (amount t) (deposit.original_amount t * r) ABS_TOLERANCE)]"

definition DepositTransaction_init :: "row \<Rightarrow> error + deposit" where
  "DepositTransaction_init row =
     and_then (Transaction_init row) (\<lambda>b.
     and_then (get_decimal row ''ZAMOUNT1'') (\<lambda>a.
     and_then (get_decimal row ''ZORIGINALAMOUNT'') (\<lambda>oa.
     and_then (get_nullable_decimal row ''ZORIGINALEXCHANGERATE'') (\<lambda>r.
       let t = \<lparr>ident = ident b, reconciled = reconciled b, amount = a,
                description = description b, datetime = datetime b, notes1 = notes1 b,
                deposit.account = row ''ZACCOUNT2'',
                deposit.payee = row ''ZPAYEE2'',
                deposit.original_currency = row ''ZORIGINALCURRENCY'',
                deposit.original_amount = oa,
                deposit.original_exchange_rate = fix_zero_rate r\<rparr>
       in and_then (DepositTransaction_validate t) (\<lambda>_. Inr t)))))"

record withdraw = transaction +
  account :: raw
  payee :: raw
  original_currency :: raw
  original_amount :: rat
  original_exchange_rate :: "rat option"

text \<open>
  The fix-up of lines 569 and 570: the original amount is negated when its sign differs
  from the sign of the amount.
\<close>

definition fix_sign :: "rat \<Rightarrow> rat \<Rightarrow> rat" where
  "fix_sign a oa = (if a * oa < 0 then - oa else oa)"

definition WithdrawTransaction_validate :: "withdraw \<Rightarrow> error + unit" where
  "WithdrawTransaction_validate t = run_asserts
     [(579, withdraw.account t \<noteq> RNull),
      (580, True),
      (582, withdraw.original_currency t \<noteq> RNull),
      (583, True),
      (585, amount t * withdraw.original_amount t > 0),
      (588, case withdraw.original_exchange_rate t of
              None \<Rightarrow> True
            | Some r \<Rightarrow> approx (amount t) (withdraw.original_amount t * r) ABS_TOLERANCE2)]"

definition WithdrawTransaction_init :: "row \<Rightarrow> error + withdraw" where
  "WithdrawTransaction_init row =
     and_then (Transaction_init row) (\<lambda>b.
     and_then (get_decimal row ''ZAMOUNT1'') (\<lambda>a.
     and_then (get_decimal row ''ZORIGINALAMOUNT'') (\<lambda>oa.
     and_then (get_nullable_decimal row ''ZORIGINALEXCHANGERATE'') (\<lambda>r.
       let t = \<lparr>ident = ident b, reconciled = reconciled b, amount = a,
                description = description b, datetime = datetime b, notes1 = notes1 b,
                withdraw.account = row ''ZACCOUNT2'',
                withdraw.payee = row ''ZPAYEE2'',
                withdraw.original_currency = row ''ZORIGINALCURRENCY'',
                withdraw.original_amount = fix_sign a oa,
                withdraw.original_exchange_rate = fix_zero_rate r\<rparr>
       in and_then (WithdrawTransaction_validate t) (\<lambda>_. Inr t)))))"

text \<open>
  A row of the shape that Deposit and Withdraw read: the amount, the original amount
  and the stored exchange rate are left open.
\<close>

definition example_fx_row :: "rat \<Rightarrow> rat \<Rightarrow> raw \<Rightarrow> row" where
  "example_fx_row a oa r = row_of
     [(''Z_PK'', RNum 1), (''ZRECONCILED'', RNum 1), (''ZAMOUNT1'', RNum a),
      (''ZDESC2'', RStr ''groceries''), (''ZDATE1'', RNum 700000000),
      (''ZACCOUNT2'', RNum 2), (''ZORIGINALCURRENCY'', RStr ''EUR''),
      (''ZORIGINALAMOUNT'', RNum oa), (''ZORIGINALEXCHANGERATE'', r)]"

section \<open>TransferDepositTransaction and TransferWithdrawTransaction\<close>

record transfer_deposit = transaction +
  account :: raw
  investment_holding :: raw
  number_of_shares :: "rat option"
  price_per_share :: "rat option"
  symbol :: raw
  sender_account :: raw
  sender_transaction :: raw
  original_amount :: rat
  original_currency :: raw
  sender_amount :: rat
  sender_currency :: raw
  original_exchange_rate :: rat



record transfer_withdraw = transaction +
  account :: raw
  fee :: "rat option"
  investment_holding :: raw
  number_of_shares :: "rat option"
  price_per_share :: "rat option"
  symbol :: raw
  recipient_account :: raw
  recipient_transaction :: raw
  original_amount :: rat
  original_currency :: raw
  recipient_amount :: rat
  recipient_currency :: raw
  original_fee :: "rat option"
  original_fee_currency :: raw
  original_exchange_rate :: rat

text \<open>
  \<^verbatim>\<open>TransferWithdrawTransaction.validate\<close>, lines 512 to 538. The last assertion
  divides by the exchange rate; the recipient amount is positive there, so that a rate
  of zero raises \<^verbatim>\<open>decimal.DivisionByZero\<close>.
\<close>

definition TransferWithdrawTransaction_validate :: "transfer_withdraw \<Rightarrow> error + unit" where
  "TransferWithdrawTransaction_validate t =
     and_then (run_asserts
       ([(513, transfer_withdraw.account t \<noteq> RNull),
         (514, True),
         (515, amount t < 0),
         (516, transfer_withdraw.recipient_account t \<noteq> RNull),
         (517, transfer_withdraw.recipient_transaction t \<noteq> RNull),
         (518, True),
         (519, transfer_withdraw.original_amount t < 0),
         (520, transfer_withdraw.original_currency t \<noteq> RNull),
         (521, True),
         (522, transfer_withdraw.recipient_amount t > 0),
         (523, transfer_withdraw.recipient_currency t \<noteq> RNull)]
        @ (if transfer_withdraw.investment_holding t = RNull
           then [(526, amount t = transfer_withdraw.original_amount t)]
           else [(528, transfer_withdraw.fee t \<noteq> None),
                 (529, transfer_withdraw.number_of_shares t \<noteq> None),
                 (530, transfer_withdraw.price_per_share t \<noteq> None),
                 (531, transfer_withdraw.original_fee_currency t \<noteq> RNull),
                 (532, transfer_withdraw.symbol t \<noteq> RNull)])
        @ [(534, True)]))
       (\<lambda>_. if transfer_withdraw.original_exchange_rate t = 0 then Inl DivisionByZero
            else run_asserts
              [(535, approx (transfer_withdraw.original_amount t)
                       (- transfer_withdraw.recipient_amount t
                          / transfer_withdraw.original_exchange_rate t)
                       ABS_TOLERANCE)])"

definition TransferWithdrawTransaction_init :: "row \<Rightarrow> error + transfer_withdraw" where
  "TransferWithdrawTransaction_init row =
     and_then (Transaction_init row) (\<lambda>b.
     and_then (get_decimal row ''ZAMOUNT1'') (\<lambda>a.
     and_then (get_nullable_decimal row ''ZFEE2'') (\<lambda>f.
     and_then (get_nullable_decimal row ''ZNUMBEROFSHARES1'') (\<lambda>n.
     and_then (get_nullable_decimal row ''ZPRICEPERSHARE1'') (\<lambda>p.
     and_then (get_decimal row ''ZORIGINALAMOUNT'') (\<lambda>oa.
     and_then (get_decimal row ''ZORIGINALRECIPIENTAMOUNT'') (\<lambda>ra.
     and_then (get_nullable_decimal row ''ZORIGINALFEE'') (\<lambda>ofee.
     and_then (get_decimal row ''ZORIGINALEXCHANGERATE'') (\<lambda>r.
       let t = \<lparr>ident = ident b, reconciled = reconciled b, amount = a,
                description = description b, datetime = datetime b, notes1 = notes1 b,
                transfer_withdraw.account = row ''ZACCOUNT2'',
                transfer_withdraw.fee = f,
                transfer_withdraw.investment_holding = row ''ZINVESTMENTHOLDING'',
                transfer_withdraw.number_of_shares = n,
                transfer_withdraw.price_per_share = p,
                transfer_withdraw.symbol = row ''ZSYMBOL1'',
                transfer_withdraw.recipient_account = row ''ZRECIPIENTACCOUNT1'',
                transfer_withdraw.recipient_transaction = row ''ZRECIPIENTTRANSACTION'',
                transfer_withdraw.original_amount = oa,
                transfer_withdraw.original_currency = row ''ZORIGINALCURRENCY'',
                transfer_withdraw.recipient_amount = fix_abs ra,
                transfer_withdraw.recipient_currency = row ''ZORIGINALRECIPIENTCURRENCY'',
                transfer_withdraw.original_fee = ofee,
                transfer_withdraw.original_fee_currency = row ''ZORIGINALFEECURRENCY'',
                transfer_withdraw.original_exchange_rate = r\<rparr>
       in and_then (TransferWithdrawTransaction_validate t) (\<lambda>_. Inr t))))))))))"


definition example_transfer_withdraw_row :: "rat \<Rightarrow> rat \<Rightarrow> rat \<Rightarrow> rat \<Rightarrow> row" where
  "example_transfer_withdraw_row a oa ra r = row_of
     [(''Z_PK'', RNum 10), (''ZRECONCILED'', RNum 0), (''ZAMOUNT1'', RNum a),
      (''ZDESC2'', RStr ''transfer''), (''ZDATE1'', RNum 700000000),
      (''ZACCOUNT2'', RNum 3), (''ZRECIPIENTACCOUNT1'', RNum 2),
      (''ZRECIPIENTTRANSACTION'', RNum 11),
      (''ZORIGINALAMOUNT'', RNum oa), (''ZORIGINALCURRENCY'', RStr ''EUR''),
      (''ZORIGINALRECIPIENTAMOUNT'', RNum ra), (''ZORIGINALRECIPIENTCURRENCY'', RStr ''EUR''),
      (''ZORIGINALEXCHANGERATE'', RNum r)]"

section \<open>InvestmentExchangeTransaction\<close>





record investment_exchange = transaction +
  account :: raw
  from_investment_holding :: raw
  from_symbol :: raw
  to_investment_holding :: raw
  to_symbol :: raw
  from_number_of_shares :: raw
  to_number_of_shares :: raw
  fee :: rat
  original_fee :: raw
  original_fee_currency :: raw




section \<open>Basic facts\<close>

lemma and_then_Inr_iff:
  "and_then m f = Inr y \<longleftrightarrow> (\<exists>x. m = Inr x \<and> f x = Inr y)"
  by (cases m) (simp_all add: and_then_def)

lemma and_then_Inr [simp]: "and_then (Inr x) f = f x"
  by (simp add: and_then_def)

lemma and_then_Inl [simp]: "and_then (Inl e) f = Inl e"
  by (simp add: and_then_def)

lemma and_then_Inl_iff:
  "and_then m f = Inl e \<longleftrightarrow> m = Inl e \<or> (\<exists>x. m = Inr x \<and> f x = Inl e)"
  by (cases m) (simp_all add: and_then_def)


lemma run_asserts_Inl:
  "run_asserts cs = Inl e \<Longrightarrow> \<exists>l. e = AssertionError l \<and> (l, False) \<in> set cs"
  by (induction cs rule: run_asserts.induct) (auto split: if_splits)

lemma approx_iff: "0 \<le> tol \<Longrightarrow> approx a e tol \<longleftrightarrow> \<bar>e - a\<bar> \<le> tol"
  by (auto simp: approx_def)

lemma approx_tol [simp]:
  "approx a e ABS_TOLERANCE \<longleftrightarrow> \<bar>e - a\<bar> \<le> 1 / 1000"
  "approx a e ABS_TOLERANCE2 \<longleftrightarrow> \<bar>e - a\<bar> \<le> 1 / 100"
  by (simp_all add: approx_iff ABS_TOLERANCE_def ABS_TOLERANCE2_def)

lemma get_decimal_simps [simp]:
  "get_decimal row c = Inr x \<longleftrightarrow> row c = RNum x"
  by (simp add: get_decimal_def split: raw.splits)

lemma Transaction_init_Inr:
  "Transaction_init row = Inr b \<Longrightarrow> row ''ZAMOUNT1'' = RNum (amount b)"
  by (auto simp: Transaction_init_def and_then_Inr_iff Let_def)

lemma get_decimal_Inl:
  "get_decimal row c = Inl e \<Longrightarrow> e = MissingField c"
  by (simp add: get_decimal_def split: raw.splits)

lemma get_nullable_decimal_Inl:
  "get_nullable_decimal row c = Inl e \<Longrightarrow> e = MissingField c"
  by (simp add: get_nullable_decimal_def split: raw.splits)

lemma get_datetime_Inl:
  "get_datetime row c = Inl e \<Longrightarrow> e = MissingField c"
  by (simp add: get_datetime_def split: raw.splits)

lemma Record_init_Inl:
  "Record_init row = Inl e \<Longrightarrow> e = MissingField ID_COLUMN"
  by (simp add: Record_init_def split: raw.splits)

lemma Transaction_init_Inl:
  "Transaction_init row = Inl e \<Longrightarrow> (\<exists>c. e = MissingField c) \<or> e = AssertionError 43"
  by (auto simp: Transaction_init_def and_then_Inl_iff Let_def
      dest: Record_init_Inl get_decimal_Inl get_datetime_Inl split: if_splits)

section \<open>InvestmentBuy: the amount equation\<close>





section \<open>InvestmentBuy and InvestmentSell: the fee check\<close>

lemma fee_tiny_or_positive_fix_fee: "fee_tiny_or_positive (fix_fee f)"
  by (auto simp: fee_tiny_or_positive_def fix_fee_def approx_def ABS_TOLERANCE_def max_def)

lemma InvestmentBuy_not_203:
  "InvestmentBuyTransaction_init row \<noteq> Inl (AssertionError 203)"
proof
  assume a: "InvestmentBuyTransaction_init row = Inl (AssertionError 203)"
  then obtain t f where v: "InvestmentBuyTransaction_validate t = Inl (AssertionError 203)"
    and f: "investment_buy.fee t = fix_fee f"
    by (auto simp: InvestmentBuyTransaction_init_def and_then_Inl_iff Let_def
        dest: Transaction_init_Inl get_decimal_Inl)
  from run_asserts_Inl [OF v [unfolded InvestmentBuyTransaction_validate_def]]
  have "\<not> fee_tiny_or_positive (investment_buy.fee t)"
    by simp
  with f show False
    by (simp add: fee_tiny_or_positive_fix_fee)
qed

lemma InvestmentSell_not_259:
  "InvestmentSellTransaction_init row \<noteq> Inl (AssertionError 259)"
proof
  assume a: "InvestmentSellTransaction_init row = Inl (AssertionError 259)"
  then obtain t f where v: "InvestmentSellTransaction_validate t = Inl (AssertionError 259)"
    and f: "investment_sell.fee t = fix_fee f"
    by (auto simp: InvestmentSellTransaction_init_def and_then_Inl_iff Let_def
        dest: Transaction_init_Inl get_decimal_Inl)
  from run_asserts_Inl [OF v [unfolded InvestmentSellTransaction_validate_def]]
  have "\<not> fee_tiny_or_positive (investment_sell.fee t)"
    by simp
  with f show False
    by (simp add: fee_tiny_or_positive_fix_fee)
qed

text \<open>
  C9. In the validation of InvestmentBuy and InvestmentSell the check "the fee is tiny
  or positive" never fails: after the fix-up \<open>fee := max(fee, 0)\<close> every fee satisfies
  \<open>\<bar>fee\<bar> \<le> 0.001\<close> or \<open>fee > 0.001\<close>, so neither constructor ever raises the
  assertion of line 203 (InvestmentBuy) or of line 259 (InvestmentSell).
\<close>

theorem fee_check_never_fails:
  "fee_tiny_or_positive (fix_fee f)
   \<and> (\<bar>fix_fee f\<bar> \<le> 1 / 1000 \<or> fix_fee f > 1 / 1000)
   \<and> InvestmentBuyTransaction_init row \<noteq> Inl (AssertionError 203)
   \<and> InvestmentSellTransaction_init row \<noteq> Inl (AssertionError 259)"
proof (intro conjI)
  show "fee_tiny_or_positive (fix_fee f)"
    by (rule fee_tiny_or_positive_fix_fee)
  show "\<bar>fix_fee f\<bar> \<le> 1 / 1000 \<or> fix_fee f > 1 / 1000"
    by (auto simp: fix_fee_def max_def)
  show "InvestmentBuyTransaction_init row \<noteq> Inl (AssertionError 203)"
    by (rule InvestmentBuy_not_203)
  show "InvestmentSellTransaction_init row \<noteq> Inl (AssertionError 259)"
    by (rule InvestmentSell_not_259)
qed

section \<open>Deposit: same sign and the rate check\<close>

lemma get_nullable_decimal_Inr_iff:
  "get_nullable_decimal row c = Inr r \<longleftrightarrow>
     (row c = RNull \<and> r = None) \<or> (\<exists>x. row c = RNum x \<and> r = Some x)"
  by (auto simp: get_nullable_decimal_def split: raw.splits)

lemma Deposit_validate_iff:
  "DepositTransaction_validate t = Inr () \<longleftrightarrow>
     deposit.account t \<noteq> RNull \<and> deposit.original_currency t \<noteq> RNull
     \<and> amount t * deposit.original_amount t > 0
     \<and> (\<forall>r. deposit.original_exchange_rate t = Some r \<longrightarrow>
           \<bar>deposit.original_amount t * r - amount t\<bar> \<le> 1 / 1000)"
  by (cases "deposit.original_exchange_rate t") (simp_all add: DepositTransaction_validate_def)

lemma Deposit_constructed:
  assumes "DepositTransaction_init row = Inr t"
  shows "DepositTransaction_validate t = Inr ()"
    and "row ''ZAMOUNT1'' = RNum (amount t)"
    and "row ''ZORIGINALAMOUNT'' = RNum (deposit.original_amount t)"
    and "\<exists>r. get_nullable_decimal row ''ZORIGINALEXCHANGERATE'' = Inr r
           \<and> deposit.original_exchange_rate t = fix_zero_rate r"
  using assms
  by (auto simp: DepositTransaction_init_def and_then_Inr_iff Let_def)



section \<open>Withdraw: the sign fix-up and the wider tolerance\<close>

lemma Withdraw_validate_iff:
  "WithdrawTransaction_validate t = Inr () \<longleftrightarrow>
     withdraw.account t \<noteq> RNull \<and> withdraw.original_currency t \<noteq> RNull
     \<and> amount t * withdraw.original_amount t > 0
     \<and> (\<forall>r. withdraw.original_exchange_rate t = Some r \<longrightarrow>
           \<bar>withdraw.original_amount t * r - amount t\<bar> \<le> 1 / 100)"
  by (cases "withdraw.original_exchange_rate t") (simp_all add: WithdrawTransaction_validate_def)

lemma Withdraw_constructed:
  assumes "WithdrawTransaction_init row = Inr t"
  shows "WithdrawTransaction_validate t = Inr ()"
    and "row ''ZAMOUNT1'' = RNum (amount t)"
    and "\<exists>oa. row ''ZORIGINALAMOUNT'' = RNum oa
           \<and> withdraw.original_amount t = fix_sign (amount t) oa"
    and "\<exists>r. get_nullable_decimal row ''ZORIGINALEXCHANGERATE'' = Inr r
           \<and> withdraw.original_exchange_rate t = fix_zero_rate r"
  using assms
  by (auto simp: WithdrawTransaction_init_def and_then_Inr_iff Let_def)




lemma example_fx_row_base:
  "Transaction_init (example_fx_row a oa r) =
     Inr \<lparr>ident = RNum 1, reconciled = True, amount = a, description = RStr ''groceries'',
          datetime = 700000000, notes1 = RNull\<rparr>"
  by (simp add: Transaction_init_def Record_init_def ID_COLUMN_def get_decimal_def
      get_datetime_def example_fx_row_def row_of_def Let_def)

lemma example_fx_row_columns:
  "example_fx_row a oa r ''ZAMOUNT1'' = RNum a"
  "example_fx_row a oa r ''ZORIGINALAMOUNT'' = RNum oa"
  "example_fx_row a oa r ''ZACCOUNT2'' = RNum 2"
  "example_fx_row a oa r ''ZPAYEE2'' = RNull"
  "example_fx_row a oa r ''ZORIGINALCURRENCY'' = RStr ''EUR''"
  "example_fx_row a oa r ''ZORIGINALEXCHANGERATE'' = r"
  by (simp_all add: example_fx_row_def row_of_def)


section \<open>Deposit and Withdraw: a zero amount\<close>

lemma fix_sign_zero: "a = 0 \<or> oa = 0 \<Longrightarrow> a * fix_sign a oa = 0"
  by (auto simp: fix_sign_def)

lemma Deposit_zero_never_constructed:
  assumes a: "row ''ZAMOUNT1'' = RNum a" and oa: "row ''ZORIGINALAMOUNT'' = RNum oa"
    and z: "a = 0 \<or> oa = 0"
  shows "DepositTransaction_init row \<noteq> Inr t"
proof
  assume c: "DepositTransaction_init row = Inr t"
  have "amount t = a" "deposit.original_amount t = oa"
    using Deposit_constructed(2,3) [OF c] a oa by simp_all
  moreover have "amount t * deposit.original_amount t > 0"
    using Deposit_constructed(1) [OF c] unfolding Deposit_validate_iff by blast
  ultimately show False
    using z by auto
qed

lemma Withdraw_zero_never_constructed:
  assumes a: "row ''ZAMOUNT1'' = RNum a" and oa: "row ''ZORIGINALAMOUNT'' = RNum oa"
    and z: "a = 0 \<or> oa = 0"
  shows "WithdrawTransaction_init row \<noteq> Inr t"
proof
  assume c: "WithdrawTransaction_init row = Inr t"
  have "amount t = a"
    using Withdraw_constructed(2) [OF c] a by simp
  moreover have "withdraw.original_amount t = fix_sign (amount t) oa"
    using Withdraw_constructed(3) [OF c] oa by auto
  moreover have "amount t * withdraw.original_amount t > 0"
    using Withdraw_constructed(1) [OF c] unfolding Withdraw_validate_iff by blast
  ultimately show False
    using fix_sign_zero [OF z] by simp
qed

lemma zero_well_formed_result:
  assumes b: "Transaction_init row = Inr b"
    and acc: "row ''ZACCOUNT2'' \<noteq> RNull" and cur: "row ''ZORIGINALCURRENCY'' \<noteq> RNull"
    and a: "row ''ZAMOUNT1'' = RNum a" and oa: "row ''ZORIGINALAMOUNT'' = RNum oa"
    and r: "get_nullable_decimal row ''ZORIGINALEXCHANGERATE'' = Inr r"
    and z: "a = 0 \<or> oa = 0"
  shows "DepositTransaction_init row = Inl (AssertionError 88)"
    and "WithdrawTransaction_init row = Inl (AssertionError 585)"
proof -
  have ga: "get_decimal row ''ZAMOUNT1'' = Inr a" and go: "get_decimal row ''ZORIGINALAMOUNT'' = Inr oa"
    using a oa by simp_all
  have n: "\<not> a * oa > 0"
    using z by auto
  have n': "\<not> a * fix_sign a oa > 0"
    unfolding fix_sign_zero [OF z] by simp
  show "DepositTransaction_init row = Inl (AssertionError 88)"
    unfolding DepositTransaction_init_def b ga go r and_then_Inr Let_def
    using acc cur n by (simp add: DepositTransaction_validate_def)
  show "WithdrawTransaction_init row = Inl (AssertionError 585)"
    unfolding WithdrawTransaction_init_def b ga go r and_then_Inr Let_def
    using acc cur n' by (simp add: WithdrawTransaction_validate_def)
qed

text \<open>
  C10. A Deposit or Withdraw row whose decoded amount or original amount is zero is
  never constructed: the same-sign check is the strict inequality
  \<open>amount \<times> original_amount > 0\<close>, and the Withdraw sign fix-up leaves a zero product
  as it is. When the rest of the row is well formed (the base fields decode, the account
  and the original currency are present and the rate decodes), the failure is the
  assertion of the same-sign check: line 88 for Deposit and line 585 for Withdraw.
\<close>

theorem zero_amount_rejected:
  assumes "row ''ZAMOUNT1'' = RNum a" and "row ''ZORIGINALAMOUNT'' = RNum oa"
    and "a = 0 \<or> oa = 0"
  shows "(\<forall>t. DepositTransaction_init row \<noteq> Inr t)
   \<and> (\<forall>t. WithdrawTransaction_init row \<noteq> Inr t)
   \<and> (\<forall>b r. Transaction_init row = Inr b \<and> row ''ZACCOUNT2'' \<noteq> RNull
          \<and> row ''ZORIGINALCURRENCY'' \<noteq> RNull
          \<and> get_nullable_decimal row ''ZORIGINALEXCHANGERATE'' = Inr r \<longrightarrow>
        DepositTransaction_init row = Inl (AssertionError 88)
        \<and> WithdrawTransaction_init row = Inl (AssertionError 585))"
proof (intro conjI allI impI)
  fix t :: deposit
  show "DepositTransaction_init row \<noteq> Inr t"
    by (rule Deposit_zero_never_constructed [OF assms])
next
  fix t :: withdraw
  show "WithdrawTransaction_init row \<noteq> Inr t"
    by (rule Withdraw_zero_never_constructed [OF assms])
next
  fix b r
  assume h: "Transaction_init row = Inr b \<and> row ''ZACCOUNT2'' \<noteq> RNull
          \<and> row ''ZORIGINALCURRENCY'' \<noteq> RNull
          \<and> get_nullable_decimal row ''ZORIGINALEXCHANGERATE'' = Inr r"
  show "DepositTransaction_init row = Inl (AssertionError 88)"
    using h assms by (intro zero_well_formed_result(1)) simp_all
  show "WithdrawTransaction_init row = Inl (AssertionError 585)"
    using h assms by (intro zero_well_formed_result(2)) simp_all
qed

theorem zero_amount_rejected_witness:
  "DepositTransaction_init (example_fx_row 0 90 RNull) = Inl (AssertionError 88)
   \<and> WithdrawTransaction_init (example_fx_row 0 90 RNull) = Inl (AssertionError 585)
   \<and> example_fx_row 0 90 RNull ''ZAMOUNT1'' = RNum 0
   \<and> example_fx_row 0 90 RNull ''ZORIGINALAMOUNT'' = RNum 90"
proof -
  let ?row = "example_fx_row 0 90 RNull"
  have h1: "?row ''ZAMOUNT1'' = RNum 0" and h2: "?row ''ZORIGINALAMOUNT'' = RNum 90"
    by (simp_all add: example_fx_row_columns)
  have h3: "(0 :: rat) = 0 \<or> (90 :: rat) = 0"
    by simp
  have r: "get_nullable_decimal ?row ''ZORIGINALEXCHANGERATE'' = Inr None"
    by (simp add: get_nullable_decimal_def example_fx_row_columns)
  have w: "?row ''ZACCOUNT2'' \<noteq> RNull" "?row ''ZORIGINALCURRENCY'' \<noteq> RNull"
    by (simp_all add: example_fx_row_columns)
  from zero_amount_rejected [OF h1 h2 h3]
  have "\<forall>b r. Transaction_init ?row = Inr b \<and> ?row ''ZACCOUNT2'' \<noteq> RNull
          \<and> ?row ''ZORIGINALCURRENCY'' \<noteq> RNull
          \<and> get_nullable_decimal ?row ''ZORIGINALEXCHANGERATE'' = Inr r \<longrightarrow>
        DepositTransaction_init ?row = Inl (AssertionError 88)
        \<and> WithdrawTransaction_init ?row = Inl (AssertionError 585)"
    by blast
  from this [rule_format, OF conjI [OF example_fx_row_base conjI [OF w(1) conjI [OF w(2) r]]]] h1 h2
  show ?thesis
    by simp
qed

section \<open>The fix-ups are idempotent\<close>

text \<open>
  C8. The fix-ups are idempotent. The zero-rate fix-up maps the rate 0 to null and
  leaves every other value as it is, and applying it twice gives what applying it once
  gives; the absolute-value fix-up applied twice gives what it gives once,
  \<open>abs (abs v) = abs v\<close>.
\<close>

theorem fix_ups_idempotent:
  "fix_zero_rate (fix_zero_rate r) = fix_zero_rate r
   \<and> fix_zero_rate (Some 0) = None
   \<and> fix_zero_rate r = (if r = Some 0 then None else r)
   \<and> fix_abs (fix_abs v) = fix_abs v
   \<and> fix_abs v = \<bar>v\<bar>"
  by (simp add: fix_zero_rate_def fix_abs_def)

section \<open>TransferDeposit: the amounts of the two legs\<close>





section \<open>TransferWithdraw: the amount is compared exactly\<close>

text \<open>
  C4. For a TransferWithdraw row without an investment holding, the cross-check of the
  amount against the original amount is an exact comparison (\<^verbatim>\<open>==\<close>, line 526) and
  not the tolerant one that TransferDeposit makes (line 438). The row with amount
  -100.00, original amount -100.0005, recipient amount 100.0005 and rate 1 satisfies
  \<open>\<bar>amount - original_amount\<bar> \<le> 0.001\<close> and
  \<open>\<bar>original_amount - (- recipient_amount / original_exchange_rate)\<bar> \<le> 0.001\<close>, and
  it is rejected by the assertion of line 526; the same row with the original amount
  -100.00 and the recipient amount 100.00 is constructed.
\<close>

theorem TransferWithdraw_amount_compared_exactly:
  "TransferWithdrawTransaction_init
     (example_transfer_withdraw_row (- 100) (- 1000005 / 10000) (1000005 / 10000) 1)
     = Inl (AssertionError 526)
   \<and> \<bar>(- 100 :: rat) - (- 1000005 / 10000)\<bar> \<le> 1 / 1000
   \<and> \<bar>(- 1000005 / 10000 :: rat) - (- (1000005 / 10000) / 1)\<bar> \<le> 1 / 1000
   \<and> (\<exists>t. TransferWithdrawTransaction_init
             (example_transfer_withdraw_row (- 100) (- 100) 100 1) = Inr t)"
  by (simp add: TransferWithdrawTransaction_init_def Transaction_init_def Record_init_def
        ID_COLUMN_def get_decimal_def get_datetime_def get_nullable_decimal_def
        example_transfer_withdraw_row_def row_of_def TransferWithdrawTransaction_validate_def
        fix_abs_def ABS_TOLERANCE_def approx_def Let_def)

section \<open>InvestmentHolding: the investment object type\<close>

lemma convert_invalid:
  "v \<noteq> RNum 0 \<Longrightarrow> v \<noteq> RNum 1 \<Longrightarrow> convert_investment_object_type v = Inl RuntimeError"
  by (simp add: convert_investment_object_type_def)

lemma convert_Inr:
  "convert_investment_object_type v = Inr s \<Longrightarrow>
     (v = RNum 0 \<and> s = ''Investment'') \<or> (v = RNum 1 \<and> s = ''Forex/Crypto'')"
  by (auto simp: convert_investment_object_type_def split: if_splits)

lemma InvestmentHolding_invalid_type:
  assumes "row ''ZINVESTMENTOBJECTTYPE'' \<noteq> RNum 0" and "row ''ZINVESTMENTOBJECTTYPE'' \<noteq> RNum 1"
  shows "InvestmentHolding_init row \<noteq> Inr t"
    and "InvestmentHolding_init row \<noteq> Inl (AssertionError l)"
    and "Record_init row = Inr i \<Longrightarrow>
         get_nullable_decimal row ''ZOPENNINGNUMBEROFSHARES'' = Inr ons \<Longrightarrow>
         get_decimal row ''ZNUMBEROFSHARES'' = Inr n \<Longrightarrow>
         InvestmentHolding_init row = Inl RuntimeError"
proof -
  note c = convert_invalid [OF assms]
  show "InvestmentHolding_init row \<noteq> Inr t"
    by (simp add: InvestmentHolding_init_def and_then_Inr_iff c)
  show "InvestmentHolding_init row \<noteq> Inl (AssertionError l)"
    by (auto simp: InvestmentHolding_init_def and_then_Inl_iff c
        dest: Record_init_Inl get_nullable_decimal_Inl get_decimal_Inl)
  show "Record_init row = Inr i \<Longrightarrow>
         get_nullable_decimal row ''ZOPENNINGNUMBEROFSHARES'' = Inr ons \<Longrightarrow>
         get_decimal row ''ZNUMBEROFSHARES'' = Inr n \<Longrightarrow>
         InvestmentHolding_init row = Inl RuntimeError"
    by (simp add: InvestmentHolding_init_def c del: get_decimal_simps)
qed

lemma InvestmentHolding_constructed:
  assumes "InvestmentHolding_init row = Inr t"
  shows "convert_investment_object_type (row ''ZINVESTMENTOBJECTTYPE'')
           = Inr (holding.investment_object_type t)"
  using assms
  by (auto simp: InvestmentHolding_init_def and_then_Inr_iff Let_def)

text \<open>
  C7. The stored investment object type decodes through a closed mapping: 0 gives
  \<open>Investment\<close> and 1 gives \<open>Forex/Crypto\<close>; any other stored value, 7 for one, raises
  the runtime error of line 85. A holding row with such a value is never constructed
  and never fails with an assertion of \<^verbatim>\<open>validate\<close>: when the identifier and the two
  share counts before it decode, the construction raises that runtime error, before
  \<^verbatim>\<open>validate\<close> runs. A holding that is constructed has the type its stored value
  maps to, and no other.
\<close>

theorem investment_object_type_closed:
  "convert_investment_object_type (RNum 0) = Inr ''Investment''
   \<and> convert_investment_object_type (RNum 1) = Inr ''Forex/Crypto''
   \<and> convert_investment_object_type (RNum 7) = Inl RuntimeError
   \<and> (\<forall>v. v \<noteq> RNum 0 \<and> v \<noteq> RNum 1 \<longrightarrow> convert_investment_object_type v = Inl RuntimeError)
   \<and> (\<forall>row. row ''ZINVESTMENTOBJECTTYPE'' \<noteq> RNum 0 \<and> row ''ZINVESTMENTOBJECTTYPE'' \<noteq> RNum 1 \<longrightarrow>
         (\<forall>t. InvestmentHolding_init row \<noteq> Inr t)
         \<and> (\<forall>l. InvestmentHolding_init row \<noteq> Inl (AssertionError l))
         \<and> (\<forall>i ons n. Record_init row = Inr i
               \<and> get_nullable_decimal row ''ZOPENNINGNUMBEROFSHARES'' = Inr ons
               \<and> get_decimal row ''ZNUMBEROFSHARES'' = Inr n \<longrightarrow>
             InvestmentHolding_init row = Inl RuntimeError))
   \<and> (\<forall>row t. InvestmentHolding_init row = Inr t \<longrightarrow>
         (row ''ZINVESTMENTOBJECTTYPE'' = RNum 0
            \<and> holding.investment_object_type t = ''Investment'')
         \<or> (row ''ZINVESTMENTOBJECTTYPE'' = RNum 1
            \<and> holding.investment_object_type t = ''Forex/Crypto''))"
proof (intro conjI allI impI)
  show "convert_investment_object_type (RNum 0) = Inr ''Investment''"
    by (simp add: convert_investment_object_type_def)
  show "convert_investment_object_type (RNum 1) = Inr ''Forex/Crypto''"
    by (simp add: convert_investment_object_type_def)
  show "convert_investment_object_type (RNum 7) = Inl RuntimeError"
    by (simp add: convert_investment_object_type_def)
next
  fix v
  assume "v \<noteq> RNum 0 \<and> v \<noteq> RNum 1"
  then show "convert_investment_object_type v = Inl RuntimeError"
    by (simp add: convert_invalid)
next
  fix row and t :: holding
  assume "row ''ZINVESTMENTOBJECTTYPE'' \<noteq> RNum 0 \<and> row ''ZINVESTMENTOBJECTTYPE'' \<noteq> RNum 1"
  then show "InvestmentHolding_init row \<noteq> Inr t"
    using InvestmentHolding_invalid_type(1) by blast
next
  fix row and l :: nat
  assume "row ''ZINVESTMENTOBJECTTYPE'' \<noteq> RNum 0 \<and> row ''ZINVESTMENTOBJECTTYPE'' \<noteq> RNum 1"
  then show "InvestmentHolding_init row \<noteq> Inl (AssertionError l)"
    using InvestmentHolding_invalid_type(2) by blast
next
  fix row i ons n
  assume "row ''ZINVESTMENTOBJECTTYPE'' \<noteq> RNum 0 \<and> row ''ZINVESTMENTOBJECTTYPE'' \<noteq> RNum 1"
    and "Record_init row = Inr i
               \<and> get_nullable_decimal row ''ZOPENNINGNUMBEROFSHARES'' = Inr ons
               \<and> get_decimal row ''ZNUMBEROFSHARES'' = Inr n"
  then show "InvestmentHolding_init row = Inl RuntimeError"
    using InvestmentHolding_invalid_type(3) by blast
next
  fix row and t :: holding
  assume "InvestmentHolding_init row = Inr t"
  then show "(row ''ZINVESTMENTOBJECTTYPE'' = RNum 0
            \<and> holding.investment_object_type t = ''Investment'')
         \<or> (row ''ZINVESTMENTOBJECTTYPE'' = RNum 1
            \<and> holding.investment_object_type t = ''Forex/Crypto'')"
    by (intro convert_Inr InvestmentHolding_constructed)
qed

theorem investment_object_type_closed_witness:
  "InvestmentHolding_init (example_holding_row (RNum 7) False) = Inl RuntimeError
   \<and> InvestmentHolding_init (example_holding_row (RNum 0) False) = Inl (AssertionError 67)
   \<and> example_holding_row (RNum 7) False ''ZINVESTMENTOBJECTTYPE'' = RNum 7
   \<and> (\<exists>t. InvestmentHolding_init (example_holding_row (RNum 1) True) = Inr t
          \<and> holding.investment_object_type t = ''Forex/Crypto'')"
proof -
  let ?row = "example_holding_row (RNum 7) False"
  have ty: "?row ''ZINVESTMENTOBJECTTYPE'' = RNum 7"
    by (simp add: example_holding_row_def row_of_def)
  have h: "?row ''ZINVESTMENTOBJECTTYPE'' \<noteq> RNum 0 \<and> ?row ''ZINVESTMENTOBJECTTYPE'' \<noteq> RNum 1"
    unfolding ty by simp
  have d: "Record_init ?row = Inr (RNum 5)
           \<and> get_nullable_decimal ?row ''ZOPENNINGNUMBEROFSHARES'' = Inr None
           \<and> get_decimal ?row ''ZNUMBEROFSHARES'' = Inr 12"
    by (simp add: Record_init_def ID_COLUMN_def get_nullable_decimal_def
        example_holding_row_def row_of_def)
  from investment_object_type_closed
  have "\<forall>row. row ''ZINVESTMENTOBJECTTYPE'' \<noteq> RNum 0 \<and> row ''ZINVESTMENTOBJECTTYPE'' \<noteq> RNum 1 \<longrightarrow>
         (\<forall>t. InvestmentHolding_init row \<noteq> Inr t)
         \<and> (\<forall>l. InvestmentHolding_init row \<noteq> Inl (AssertionError l))
         \<and> (\<forall>i ons n. Record_init row = Inr i
               \<and> get_nullable_decimal row ''ZOPENNINGNUMBEROFSHARES'' = Inr ons
               \<and> get_decimal row ''ZNUMBEROFSHARES'' = Inr n \<longrightarrow>
             InvestmentHolding_init row = Inl RuntimeError)"
    by blast
  with h d have 1: "InvestmentHolding_init ?row = Inl RuntimeError"
    by blast
  have 2: "InvestmentHolding_init (example_holding_row (RNum 0) False) = Inl (AssertionError 67)"
    by (simp add: InvestmentHolding_init_def Record_init_def ID_COLUMN_def
        get_nullable_decimal_def get_decimal_def convert_investment_object_type_def
        InvestmentHolding_validate_def example_holding_row_def row_of_def Let_def)
  have 3: "\<exists>t. InvestmentHolding_init (example_holding_row (RNum 1) True) = Inr t
          \<and> holding.investment_object_type t = ''Forex/Crypto''"
    by (simp add: InvestmentHolding_init_def Record_init_def ID_COLUMN_def
        get_nullable_decimal_def get_decimal_def convert_investment_object_type_def
        InvestmentHolding_validate_def example_holding_row_def row_of_def Let_def)
  from 1 2 ty 3 show ?thesis
    by blast
qed

section \<open>InvestmentExchange: the fee is folded into a share count\<close>






end
